theory Spec2Isabelle
  imports Complex_Main "HOL-Library.AList"
begin

section \<open>Python values, exceptions and time\<close>

text \<open>
  The script \<^verbatim>\<open>scripts/extract_network_whois_features.py\<close> talks to three things outside
  itself: the WHOIS web service, the TLS endpoint of a domain and the cache file. Each call
  to the outside is modelled by the value the outside hands back (a reply), passed to the
  function as an argument, so that every function below is a total, executable function of
  its arguments and of the explicit program state.

  Python floats that the script produces are whole numbers of days (\<^verbatim>\<open>float(age)\<close>) or the
  literal \<^verbatim>\<open>-1.0\<close>; they are modelled as \<^typ>\<open>real\<close>. Instants are integers counting
  microseconds since the epoch, the resolution of \<^verbatim>\<open>datetime\<close>.
\<close>

datatype py_error =
    ValueError | TypeError | AttributeError | KeyError
  | RequestException | JSONDecodeError | OSError | SSLError

text \<open>A value decoded from JSON (\<^verbatim>\<open>resp.json()\<close>); a dict keeps its items in order.\<close>

datatype pyval =
    PNone | PBool bool | PNum real | PStr string
  | PList "pyval list" | PDict "(string \<times> pyval) list"

text \<open>Python truth value, as tested by \<^verbatim>\<open>if not created_str\<close>.\<close>

fun truthy :: "pyval \<Rightarrow> bool" where
  "truthy PNone = False"
| "truthy (PBool b) = b"
| "truthy (PNum x) = (x \<noteq> 0)"
| "truthy (PStr s) = (s \<noteq> [])"
| "truthy (PList xs) = (xs \<noteq> [])"
| "truthy (PDict kvs) = (kvs \<noteq> [])"

text \<open>
  \<^verbatim>\<open>x.get(key, default)\<close>: only a dict has the method; on any other JSON value the
  attribute lookup raises AttributeError.
\<close>

definition dict_get :: "pyval \<Rightarrow> string \<Rightarrow> pyval \<Rightarrow> py_error + pyval" where
  "dict_get x key dflt =
     (case x of
        PDict kvs \<Rightarrow> Inr (case map_of kvs key of Some v \<Rightarrow> v | None \<Rightarrow> dflt)
      | _ \<Rightarrow> Inl AttributeError)"

text \<open>
  A \<^verbatim>\<open>datetime\<close> is either naive (no tzinfo) or timezone-aware; the integer is its
  microsecond count (wall clock for a naive value, UTC instant for an aware one).
  Subtracting a naive from an aware value, or the reverse, raises TypeError.
\<close>

datatype py_datetime = Naive int | Aware int

fun dt_sub :: "py_datetime \<Rightarrow> py_datetime \<Rightarrow> py_error + int" where
  "dt_sub (Aware a) (Aware b) = Inr (a - b)"
| "dt_sub (Naive a) (Naive b) = Inr (a - b)"
| "dt_sub _ _ = Inl TypeError"

definition usec_per_day :: int where
  "usec_per_day = 86400000000"

text \<open>
  \<^verbatim>\<open>timedelta.days\<close>: a timedelta is normalised so that its seconds and microseconds are
  non-negative, hence \<^verbatim>\<open>.days\<close> is the floor of the difference divided by one day.
\<close>

definition td_days :: "int \<Rightarrow> int" where
  "td_days delta = delta div usec_per_day"

section \<open>The WHOIS cache store\<close>

text \<open>
  The program state: the module-level dict \<^verbatim>\<open>whois_cache\<close>, the content of the cache file
  (\<open>None\<close> while the file does not exist), and two counters that record the effects the
  claims speak about: HTTP requests issued and writes of the cache file. The file system is
  taken to be reliable and the script to be the file's only writer.
\<close>

record state =
  whois_cache :: "string \<rightharpoonup> real"
  cache_file :: "(string \<rightharpoonup> real) option"
  http_calls :: nat
  file_writes :: nat

definition load_cache :: "(string \<rightharpoonup> real) option \<Rightarrow> (string \<rightharpoonup> real)" where
  "load_cache file = (case file of Some m \<Rightarrow> m | None \<Rightarrow> Map.empty)"

definition save_cache :: "(string \<rightharpoonup> real) \<Rightarrow> state \<Rightarrow> state" where
  "save_cache cache s = s\<lparr>cache_file := Some cache, file_writes := Suc (file_writes s)\<rparr>"

section \<open>The WHOIS lookup client\<close>

text \<open>
  What \<^verbatim>\<open>requests.get(...)\<close> followed by \<^verbatim>\<open>resp.json()\<close> yields: the request raises, the
  body is not JSON, or a decoded JSON value.
\<close>

datatype http_outcome = RequestFailed | BodyNotJson | JsonBody pyval

text \<open>
  The body of the \<^verbatim>\<open>try\<close> block of \<^verbatim>\<open>domain_age_days\<close> (source lines 76 to 95), up to the value
  that is stored in the cache; \<open>Inl\<close> is the exception that reaches the \<^verbatim>\<open>except\<close> clause.
  The parameter \<open>strptime\<close> stands for the library call
  \<^verbatim>\<open>datetime.strptime(s, "%Y-%m-%dT%H:%M:%SZ").replace(tzinfo=timezone.utc)\<close>: the instant
  parsed, or \<open>None\<close> where the library raises ValueError. \<open>now\<close> is
  \<^verbatim>\<open>datetime.now(timezone.utc)\<close>.
\<close>

definition whois_age :: "(string \<Rightarrow> int option) \<Rightarrow> http_outcome \<Rightarrow> int \<Rightarrow> py_error + real" where
  "whois_age strptime resp now =
     (case resp of
        RequestFailed \<Rightarrow> Inl RequestException
      | BodyNotJson \<Rightarrow> Inl JSONDecodeError
      | JsonBody data \<Rightarrow>
          (case dict_get data ''WhoisRecord'' (PDict []) of
             Inl e \<Rightarrow> Inl e
           | Inr record \<Rightarrow>
               (case dict_get record ''createdDate'' PNone of
                  Inl e \<Rightarrow> Inl e
                | Inr created_str \<Rightarrow>
                    if \<not> truthy created_str then Inl ValueError
                    else (case created_str of
                            PStr s \<Rightarrow>
                              (case strptime s of
                                 None \<Rightarrow> Inl ValueError
                               | Some created_dt \<Rightarrow>
                                   (case dt_sub (Aware now) (Aware created_dt) of
                                      Inl e \<Rightarrow> Inl e
                                    | Inr delta \<Rightarrow> Inr (real_of_int (td_days delta))))
                          | _ \<Rightarrow> Inl TypeError))))"

text \<open>
  \<^verbatim>\<open>domain_age_days\<close>. The reply and the clock reading are consumed only on the path that
  reaches \<^verbatim>\<open>requests.get\<close>; that path increments \<open>http_calls\<close>. The final
  \<^verbatim>\<open>return whois_cache[domain]\<close> is a dict lookup, a KeyError where the key is absent.
\<close>

definition domain_age_days ::
  "(string \<Rightarrow> int option) \<Rightarrow> string \<Rightarrow> http_outcome \<Rightarrow> int \<Rightarrow> state \<Rightarrow> py_error + (real \<times> state)" where
  "domain_age_days strptime domain resp now s =
     (case whois_cache s domain of
        Some v \<Rightarrow> Inr (v, s)
      | None \<Rightarrow>
          if domain = [] then
            (let s1 = s\<lparr>whois_cache := (whois_cache s)(domain \<mapsto> - 1)\<rparr>;
                 s2 = save_cache (whois_cache s1) s1
             in Inr (- 1, s2))
          else
            (let s0 = s\<lparr>http_calls := Suc (http_calls s)\<rparr>;
                 s1 = (case whois_age strptime resp now of
                         Inr age \<Rightarrow> s0\<lparr>whois_cache := (whois_cache s0)(domain \<mapsto> age)\<rparr>
                       | Inl e \<Rightarrow> s0\<lparr>whois_cache := (whois_cache s0)(domain \<mapsto> - 1)\<rparr>);
                 s2 = save_cache (whois_cache s1) s1
             in (case whois_cache s2 domain of
                   Some v \<Rightarrow> Inr (v, s2)
                 | None \<Rightarrow> Inl KeyError)))"

text \<open>Two calls in succession for the same domain, each with its own reply and clock.\<close>

definition age_days_twice ::
  "(string \<Rightarrow> int option) \<Rightarrow> string \<Rightarrow> http_outcome \<Rightarrow> int \<Rightarrow> http_outcome \<Rightarrow> int \<Rightarrow> state
     \<Rightarrow> py_error + (real \<times> real \<times> state)" where
  "age_days_twice strptime domain resp1 now1 resp2 now2 s =
     (case domain_age_days strptime domain resp1 now1 s of
        Inl e \<Rightarrow> Inl e
      | Inr (v1, s1) \<Rightarrow>
          (case domain_age_days strptime domain resp2 now2 s1 of
             Inl e \<Rightarrow> Inl e
           | Inr (v2, s2) \<Rightarrow> Inr (v1, v2, s2)))"

text \<open>
  A run of the script starts by loading the dict from the cache file as it finds it.
\<close>

definition boot :: "(string \<rightharpoonup> real) option \<Rightarrow> state" where
  "boot file = \<lparr>whois_cache = load_cache file, cache_file = file, http_calls = 0, file_writes = 0\<rparr>"

text \<open>
  The states the program can be in when the first run found the cache file as \<open>found\<close>:
  every call of \<^verbatim>\<open>domain_age_days\<close> leads to the next state, and a later run of the script
  reloads the dict from the file.
\<close>

inductive reachable :: "(string \<Rightarrow> int option) \<Rightarrow> (string \<rightharpoonup> real) option \<Rightarrow> state \<Rightarrow> bool"
  for strptime :: "string \<Rightarrow> int option" and found :: "(string \<rightharpoonup> real) option" where
  start: "reachable strptime found (boot found)"
| call: "reachable strptime found s \<Longrightarrow> domain_age_days strptime domain resp now s = Inr (v, s')
           \<Longrightarrow> reachable strptime found s'"
| rerun: "reachable strptime found s
           \<Longrightarrow> reachable strptime found (s\<lparr>whois_cache := load_cache (cache_file s)\<rparr>)"

text \<open>
  A reply has a creation date when the decoded body is a dict whose \<^verbatim>\<open>WhoisRecord\<close> entry is
  a dict with a \<^verbatim>\<open>createdDate\<close> key.
\<close>

definition has_created_date :: "pyval \<Rightarrow> bool" where
  "has_created_date data =
     (case data of
        PDict kvs \<Rightarrow>
          (case map_of kvs ''WhoisRecord'' of
             Some (PDict rkvs) \<Rightarrow> map_of rkvs ''createdDate'' \<noteq> None
           | _ \<Rightarrow> False)
      | _ \<Rightarrow> False)"

text \<open>A stand-in for the library parser that knows no date at all.\<close>

definition no_strptime :: "string \<Rightarrow> int option" where
  "no_strptime s = None"

text \<open>
  A stand-in for the library parser on the two timestamps used in the examples:
  2024-01-01T00:00:00Z is 1704067200 seconds after the epoch.
\<close>

definition sample_strptime :: "string \<Rightarrow> int option" where
  "sample_strptime s =
     (if s = ''2024-01-01T00:00:00Z'' then Some 1704067200000000
      else if s = ''2024-01-01T00:00:01Z'' then Some 1704067201000000
      else None)"

section \<open>The TLS certificate inspector\<close>

text \<open>
  What the connection attempt of \<^verbatim>\<open>tls_cert_days_valid\<close> yields: the connect fails, the
  handshake fails, the DER certificate does not parse, or the certificate's
  \<^verbatim>\<open>not_valid_after\<close> value. The library \<^verbatim>\<open>cryptography\<close> hands that value back as a
  naive datetime (no tzinfo) whose fields read as UTC; the integer is its microsecond count.
\<close>

datatype tls_outcome = ConnectFailed | HandshakeFailed | CertParseFailed | NotAfter int

text \<open>
  The \<^verbatim>\<open>try\<close> block of \<^verbatim>\<open>tls_cert_days_valid\<close>; \<open>Inl\<close> is the exception raised in it.
  \<^verbatim>\<open>now_utc\<close> is \<^verbatim>\<open>datetime.now(timezone.utc)\<close>, a timezone-aware value, and line 126
  subtracts it from the naive \<^verbatim>\<open>not_after\<close>.
\<close>

definition tls_try :: "tls_outcome \<Rightarrow> int \<Rightarrow> py_error + real" where
  "tls_try net now =
     (case net of
        ConnectFailed \<Rightarrow> Inl OSError
      | HandshakeFailed \<Rightarrow> Inl SSLError
      | CertParseFailed \<Rightarrow> Inl ValueError
      | NotAfter not_after \<Rightarrow>
          (case dt_sub (Naive not_after) (Aware now) of
             Inl e \<Rightarrow> Inl e
           | Inr delta \<Rightarrow> Inr (real_of_int (td_days delta))))"

definition tls_cert_days_valid :: "tls_outcome \<Rightarrow> int \<Rightarrow> real" where
  "tls_cert_days_valid net now = (case tls_try net now of Inr d \<Rightarrow> d | Inl e \<Rightarrow> - 1)"

text \<open>\<^verbatim>\<open>has_valid_cert\<close> makes its own call of \<^verbatim>\<open>tls_cert_days_valid\<close>, hence its own connection.\<close>

definition has_valid_cert :: "tls_outcome \<Rightarrow> int \<Rightarrow> int" where
  "has_valid_cert net now = (let days = tls_cert_days_valid net now in if days > 0 then 1 else 0)"

section \<open>The domain extractor\<close>

text \<open>
  \<^verbatim>\<open>get_domain\<close> is \<^verbatim>\<open>urlparse(url).hostname or ""\<close>. The standard library's \<^verbatim>\<open>urlsplit\<close>
  and the \<^verbatim>\<open>hostname\<close> property decide everything the claims say about it, so both are
  modelled here, statement by statement, after CPython 3.11's \<^verbatim>\<open>urllib/parse.py\<close>.
  A URL is a list of characters with codes below 256 (Latin-1). Two library checks are
  parameters, true where the library does not raise: \<open>bracketed_netloc_ok\<close> is the
  validation that \<^verbatim>\<open>urlsplit\<close> applies to a netloc with both an opening and a closing
  bracket (in 3.11 \<^verbatim>\<open>_check_bracketed_host\<close> on the text between the brackets; later
  releases also refuse text around the bracketed host), and \<open>nfkc_ok\<close> is \<^verbatim>\<open>_checknetloc\<close>
  on a netloc with a non-ASCII character. \<^verbatim>\<open>str.lower\<close> and \<^verbatim>\<open>str.isupper\<close> are those of
  Python on the code points below 256: the capitals are A to Z and the codes 192 to 214
  and 216 to 222, each 32 below its small letter.
\<close>

record urllib =
  bracketed_netloc_ok :: "string \<Rightarrow> bool"
  nfkc_ok :: "string \<Rightarrow> bool"

definition code :: "char \<Rightarrow> nat" where
  "code c = of_char c"

definition c0_control_or_space :: "char \<Rightarrow> bool" where
  "c0_control_or_space c = (code c \<le> 32)"

definition unsafe_url_byte :: "char \<Rightarrow> bool" where
  "unsafe_url_byte c = (code c = 9 \<or> code c = 13 \<or> code c = 10)"

definition isupper :: "char \<Rightarrow> bool" where
  "isupper c = ((65 \<le> code c \<and> code c \<le> 90) \<or> (192 \<le> code c \<and> code c \<le> 214)
                \<or> (216 \<le> code c \<and> code c \<le> 222))"

definition isalpha_ascii :: "char \<Rightarrow> bool" where
  "isalpha_ascii c = ((65 \<le> code c \<and> code c \<le> 90) \<or> (97 \<le> code c \<and> code c \<le> 122))"

definition isdigit :: "char \<Rightarrow> bool" where
  "isdigit c = (48 \<le> code c \<and> code c \<le> 57)"

definition scheme_char :: "char \<Rightarrow> bool" where
  "scheme_char c = (isalpha_ascii c \<or> isdigit c \<or> c = CHR ''+'' \<or> c = CHR ''-'' \<or> c = CHR ''.'')"

definition isascii :: "string \<Rightarrow> bool" where
  "isascii s = list_all (\<lambda>c. code c < 128) s"

definition lower_char :: "char \<Rightarrow> char" where
  "lower_char c = (if isupper c then char_of (code c + 32) else c)"

definition lower :: "string \<Rightarrow> string" where
  "lower s = map lower_char s"

text \<open>
  \<^verbatim>\<open>s.partition(c)\<close> and \<^verbatim>\<open>s.rpartition(c)\<close> for a one-character separator; the middle
  component says whether the separator was found.
\<close>

definition partition_py :: "char \<Rightarrow> string \<Rightarrow> string \<times> bool \<times> string" where
  "partition_py c s =
     (if c \<in> set s
      then (takeWhile (\<lambda>x. x \<noteq> c) s, True, tl (dropWhile (\<lambda>x. x \<noteq> c) s))
      else (s, False, []))"

definition rpartition_py :: "char \<Rightarrow> string \<Rightarrow> string \<times> bool \<times> string" where
  "rpartition_py c s =
     (if c \<in> set s
      then (rev (tl (dropWhile (\<lambda>x. x \<noteq> c) (rev s))), True, rev (takeWhile (\<lambda>x. x \<noteq> c) (rev s)))
      else ([], False, s))"

record split_result =
  scheme :: string
  netloc :: string
  path :: string
  query :: string
  fragment :: string

text \<open>\<^verbatim>\<open>_splitnetloc(url, 2)\<close>: the netloc ends at the first of the delimiters / ? and #.\<close>

definition netloc_delim :: "char \<Rightarrow> bool" where
  "netloc_delim c = (c = CHR ''/'' \<or> c = CHR ''?'' \<or> c = CHR ''#'')"

definition splitnetloc :: "string \<Rightarrow> string \<times> string" where
  "splitnetloc url =
     (takeWhile (\<lambda>c. \<not> netloc_delim c) (drop 2 url), dropWhile (\<lambda>c. \<not> netloc_delim c) (drop 2 url))"

text \<open>The scheme prefix: \<^verbatim>\<open>i = url.find(':')\<close>, taken when \<^verbatim>\<open>i > 0\<close>, the first character is an
  ASCII letter and every character before the colon is a scheme character.\<close>

definition split_scheme :: "string \<Rightarrow> string \<times> string" where
  "split_scheme url =
     (let pre = takeWhile (\<lambda>c. c \<noteq> CHR '':'') url in
      if CHR '':'' \<in> set url \<and> pre \<noteq> []
         \<and> (case url of [] \<Rightarrow> False | c # _ \<Rightarrow> isalpha_ascii c)
         \<and> list_all scheme_char pre
      then (lower pre, tl (dropWhile (\<lambda>c. c \<noteq> CHR '':'') url))
      else ([], url))"

definition checknetloc :: "urllib \<Rightarrow> string \<Rightarrow> bool" where
  "checknetloc lib nl = (nl = [] \<or> isascii nl \<or> nfkc_ok lib nl)"

definition urlsplit :: "urllib \<Rightarrow> string \<Rightarrow> py_error + split_result" where
  "urlsplit lib url0 =
     (let url1 = dropWhile c0_control_or_space url0;
          url2 = filter (\<lambda>c. \<not> unsafe_url_byte c) url1;
          (sch, url3) = split_scheme url2;
          (nl, url4) = (if take 2 url3 = ''//'' then splitnetloc url3 else ([], url3))
      in if take 2 url3 = ''//''
            \<and> ((CHR ''['' \<in> set nl \<and> CHR '']'' \<notin> set nl) \<or> (CHR '']'' \<in> set nl \<and> CHR ''['' \<notin> set nl))
         then Inl ValueError
         else if take 2 url3 = ''//'' \<and> CHR ''['' \<in> set nl \<and> CHR '']'' \<in> set nl
                 \<and> \<not> bracketed_netloc_ok lib nl
         then Inl ValueError
         else
           (let (url5, frag) = (if CHR ''#'' \<in> set url4
                                then (takeWhile (\<lambda>c. c \<noteq> CHR ''#'') url4, tl (dropWhile (\<lambda>c. c \<noteq> CHR ''#'') url4))
                                else (url4, []));
                (url6, qry) = (if CHR ''?'' \<in> set url5
                               then (takeWhile (\<lambda>c. c \<noteq> CHR ''?'') url5, tl (dropWhile (\<lambda>c. c \<noteq> CHR ''?'') url5))
                               else (url5, []))
            in if \<not> checknetloc lib nl then Inl ValueError
               else Inr \<lparr>scheme = sch, netloc = nl, path = url6, query = qry, fragment = frag\<rparr>))"

text \<open>
  \<^verbatim>\<open>urlparse\<close> calls \<^verbatim>\<open>urlsplit\<close> and then only moves a \<^verbatim>\<open>;params\<close> suffix out of the path;
  scheme and netloc are those of \<^verbatim>\<open>urlsplit\<close>, and the path is not read by \<^verbatim>\<open>get_domain\<close>.
\<close>

definition urlparse :: "urllib \<Rightarrow> string \<Rightarrow> py_error + split_result" where
  "urlparse lib url = urlsplit lib url"

text \<open>The host part of \<^verbatim>\<open>_hostinfo\<close>: what follows the last @, inside brackets where there
  is an opening bracket, else up to the first colon.\<close>

definition hostinfo_host :: "string \<Rightarrow> string" where
  "hostinfo_host nl =
     (let hostinfo = snd (snd (rpartition_py CHR ''@'' nl));
          (_, have_open_br, bracketed) = partition_py CHR ''['' hostinfo
      in if have_open_br then fst (partition_py CHR '']'' bracketed)
         else fst (partition_py CHR '':'' hostinfo))"

text \<open>The \<^verbatim>\<open>hostname\<close> property: lower case up to the first percent sign, the zone after it
  as it is written.\<close>

definition hostname :: "string \<Rightarrow> string option" where
  "hostname nl =
     (let h = hostinfo_host nl in
      if h = [] then None
      else (let (host, percent, zone) = partition_py CHR ''%'' h
            in Some (lower host @ (if percent then ''%'' else []) @ zone)))"

definition get_domain :: "urllib \<Rightarrow> string \<Rightarrow> py_error + string" where
  "get_domain lib url =
     (case urlparse lib url of
        Inl e \<Rightarrow> Inl e
      | Inr r \<Rightarrow> Inr (case hostname (netloc r) of
                      None \<Rightarrow> []
                    | Some h \<Rightarrow> if h = [] then [] else h))"


section \<open>The enrichment orchestrator\<close>












section \<open>Auxiliary notions and sample data\<close>

text \<open>The value that the \<^verbatim>\<open>try\<close>/\<^verbatim>\<open>except\<close> pair stores for a lookup: the age, or the sentinel.\<close>

definition stored :: "py_error + real \<Rightarrow> real" where
  "stored r = (case r of Inr age \<Rightarrow> age | Inl e \<Rightarrow> - 1)"

text \<open>The cache file holds the dict, or there is no file yet and the dict is empty.\<close>

definition in_sync :: "state \<Rightarrow> bool" where
  "in_sync s = (cache_file s = Some (whois_cache s) \<or> (cache_file s = None \<and> whois_cache s = Map.empty))"

text \<open>The empty key is absent from the dict or holds the sentinel.\<close>

definition blank_ok :: "state \<Rightarrow> bool" where
  "blank_ok s = (whois_cache s [] = None \<or> whois_cache s [] = Some (- 1))"

text \<open>A run that found a cache file with one entry.\<close>

definition seeded :: state where
  "seeded = boot (Some [''known-good.test'' \<mapsto> 400])"

text \<open>A reply whose record has no creation date.\<close>

definition no_date_reply :: http_outcome where
  "no_date_reply = JsonBody (PDict [(''WhoisRecord'', PDict [(''domainName'', PStr ''example.com'')])])"

text \<open>A reply whose creation date is one second after the first sample instant.\<close>

definition future_reply :: http_outcome where
  "future_reply = JsonBody (PDict [(''WhoisRecord'', PDict [(''createdDate'', PStr ''2024-01-01T00:00:01Z'')])])"

text \<open>A reply whose creation date is the first sample instant.\<close>

definition past_reply :: http_outcome where
  "past_reply = JsonBody (PDict [(''WhoisRecord'', PDict [(''createdDate'', PStr ''2024-01-01T00:00:00Z'')])])"




text \<open>A run that found a cache file in which the empty key holds 7.0.\<close>

definition odd_cache :: state where
  "odd_cache = boot (Some [[] \<mapsto> 7])"




section \<open>Facts about the WHOIS client\<close>

lemma dad_hit: "whois_cache s domain = Some v \<Longrightarrow> domain_age_days strptime domain resp now s = Inr (v, s)"
  by (simp add: domain_age_days_def)

lemma dad_blank:
  "whois_cache s [] = None \<Longrightarrow>
   domain_age_days strptime [] resp now s =
     Inr (- 1, s\<lparr>whois_cache := (whois_cache s)([] \<mapsto> - 1),
                 cache_file := Some ((whois_cache s)([] \<mapsto> - 1)),
                 file_writes := Suc (file_writes s)\<rparr>)"
  by (simp add: domain_age_days_def save_cache_def)

lemma dad_miss:
  "whois_cache s domain = None \<Longrightarrow> domain \<noteq> [] \<Longrightarrow>
   domain_age_days strptime domain resp now s =
     Inr (stored (whois_age strptime resp now),
          s\<lparr>http_calls := Suc (http_calls s),
            whois_cache := (whois_cache s)(domain \<mapsto> stored (whois_age strptime resp now)),
            cache_file := Some ((whois_cache s)(domain \<mapsto> stored (whois_age strptime resp now))),
            file_writes := Suc (file_writes s)\<rparr>)"
  by (simp add: domain_age_days_def save_cache_def stored_def Let_def split: sum.splits)

lemma dad_total: "\<exists>v s'. domain_age_days strptime domain resp now s = Inr (v, s')"
proof (cases "whois_cache s domain")
  case (Some v)
  then show ?thesis by (simp add: dad_hit)
next
  case None
  then show ?thesis by (cases "domain = []") (simp_all add: dad_blank dad_miss)
qed

lemma dad_in_sync:
  assumes "in_sync s" "domain_age_days strptime domain resp now s = Inr (v, s')"
  shows "cache_file s' = Some (whois_cache s') \<and> whois_cache s' domain = Some v"
proof (cases "whois_cache s domain")
  case (Some u)
  with assms show ?thesis by (auto simp: dad_hit in_sync_def)
next
  case None
  with assms show ?thesis by (cases "domain = []") (auto simp: dad_blank dad_miss)
qed

lemma reachable_in_sync: "reachable strptime found s \<Longrightarrow> in_sync s"
proof (induction rule: reachable.induct)
  case start
  show ?case by (cases found) (simp_all add: in_sync_def boot_def load_cache_def)
next
  case (call s domain resp now v s')
  then show ?case using dad_in_sync[of s strptime domain resp now v s'] by (simp add: in_sync_def)
next
  case (rerun s)
  then show ?case by (auto simp: in_sync_def load_cache_def)
qed

lemma dad_blank_ok:
  assumes "blank_ok s" "domain_age_days strptime domain resp now s = Inr (v, s')"
  shows "blank_ok s'"
proof (cases "whois_cache s domain")
  case (Some u)
  with assms show ?thesis by (auto simp: dad_hit)
next
  case None
  with assms show ?thesis by (cases "domain = []") (auto simp: dad_blank dad_miss blank_ok_def)
qed

lemma reachable_blank_ok: "reachable strptime None s \<Longrightarrow> blank_ok s"
proof (induction rule: reachable.induct)
  case start
  show ?case by (simp add: blank_ok_def boot_def load_cache_def)
next
  case (call s domain resp now v s')
  then show ?case using dad_blank_ok by blast
next
  case (rerun s)
  from rerun.hyps have "in_sync s" by (rule reachable_in_sync)
  with rerun.IH show ?case by (auto simp: in_sync_def blank_ok_def load_cache_def)
qed

lemma whois_age_no_date:
  "\<not> has_created_date data \<Longrightarrow> \<exists>e. whois_age strptime (JsonBody data) now = Inl e"
  by (auto simp: has_created_date_def whois_age_def dict_get_def split: pyval.splits option.splits)

lemma div_minus_one_iff:
  assumes "0 < k"
  shows "((a::int) div k = - 1) = (- k \<le> a \<and> a < 0)"
proof
  assume h: "a div k = - 1"
  have "a = k * (a div k) + a mod k" by simp
  then have e: "a = - k + a mod k" using h by simp
  have "0 \<le> a mod k" and "a mod k < k" using assms by simp_all
  with e show "- k \<le> a \<and> a < 0" by linarith
next
  assume "- k \<le> a \<and> a < 0"
  then show "a div k = - 1"
    by (intro int_div_pos_eq [where r = "a + k"]) auto
qed

section \<open>The TLS certificate inspector: claim C1\<close>

text \<open>
  The subtraction \<^verbatim>\<open>not_after - now_utc\<close> of line 126 takes an aware datetime from a naive
  one and raises TypeError; the \<^verbatim>\<open>except\<close> clause turns that, like every failure of the
  connection, into the sentinel. So the function returns -1.0 on every outcome, and
  \<^verbatim>\<open>has_valid_cert\<close> returns 0.
\<close>

lemma tls_always_sentinel:
  "tls_cert_days_valid net now = - 1 \<and> has_valid_cert net now = 0"
  by (cases net) (simp_all add: tls_cert_days_valid_def tls_try_def has_valid_cert_def)

text \<open>
  Claim C1 says that for a certificate with \<open>D > 0\<close> whole days remaining
  \<^verbatim>\<open>tls_cert_days_valid\<close> returns \<open>D\<close> and \<^verbatim>\<open>has_valid_cert\<close> returns true, as the
  docstrings of the two functions and the comment on line 123 do. For a certificate that
  expires 30 days and 12 hours after the clock reading, \<open>D\<close> is 30, and the code returns
  -1.0 and 0.
\<close>

theorem tls_thirty_days_gives_sentinel:
  "td_days (2635200000000 - 0) = 30
   \<and> tls_cert_days_valid (NotAfter 2635200000000) 0 = - 1
   \<and> has_valid_cert (NotAfter 2635200000000) 0 = 0"
  by (simp add: td_days_def usec_per_day_def tls_cert_days_valid_def tls_try_def has_valid_cert_def)

section \<open>The WHOIS client: claims C2 to C7\<close>

text \<open>
  Claim C2. A lookup is made for a non-empty domain that is not in the cache. When the
  request fails, the body is not JSON, or the reply has no creation date, the call returns
  (no exception leaves it), the value returned is exactly -1.0, the cache holds -1.0 for the
  domain, and the cache file holds the whole dict.
\<close>

theorem whois_failure_gives_sentinel:
  assumes "whois_cache s domain = None" and "domain \<noteq> []"
    and "resp = RequestFailed \<or> resp = BodyNotJson
         \<or> (\<exists>data. resp = JsonBody data \<and> \<not> has_created_date data)"
  shows "\<exists>s'. domain_age_days strptime domain resp now s = Inr (- 1, s')
              \<and> whois_cache s' domain = Some (- 1)
              \<and> cache_file s' = Some (whois_cache s')"
proof -
  have "\<exists>e. whois_age strptime resp now = Inl e"
    using assms(3) whois_age_no_date [of _ strptime now] by (auto simp: whois_age_def)
  then have "stored (whois_age strptime resp now) = - 1"
    by (auto simp: stored_def)
  with assms(1,2) show ?thesis
    by (simp add: dad_miss)
qed

theorem whois_failure_gives_sentinel_witness:
  "\<exists>s'. domain_age_days no_strptime ''example.com'' no_date_reply 0 (boot None) = Inr (- 1, s')
        \<and> whois_cache s' ''example.com'' = Some (- 1)
        \<and> cache_file s' = Some (whois_cache s')"
proof -
  have 1: "whois_cache (boot None) ''example.com'' = None"
    by (simp add: boot_def load_cache_def)
  have 2: "''example.com'' \<noteq> []" by simp
  have 3: "no_date_reply = RequestFailed \<or> no_date_reply = BodyNotJson
         \<or> (\<exists>data. no_date_reply = JsonBody data \<and> \<not> has_created_date data)"
    by (simp add: no_date_reply_def has_created_date_def)
  show ?thesis using whois_failure_gives_sentinel [OF 1 2 3] .
qed

text \<open>
  Claim C3. In every state the program reaches, whatever cache file the first run found,
  a call of \<^verbatim>\<open>domain_age_days\<close> on any domain returns a value; afterwards the dict maps the
  domain to that value (a dict has one entry per key) and the cache file holds the whole
  dict.
\<close>

theorem cache_entry_and_file_after_call:
  assumes "reachable strptime found s"
  shows "\<exists>v s'. domain_age_days strptime domain resp now s = Inr (v, s')
               \<and> whois_cache s' domain = Some v
               \<and> cache_file s' = Some (whois_cache s')"
proof -
  obtain v s' where r: "domain_age_days strptime domain resp now s = Inr (v, s')"
    using dad_total by blast
  from assms have "in_sync s" by (rule reachable_in_sync)
  with r show ?thesis using dad_in_sync by blast
qed

theorem cache_entry_and_file_after_call_witness:
  "\<exists>v s'. domain_age_days sample_strptime ''example.com'' past_reply 1706745600000000 (boot None) = Inr (v, s')
               \<and> whois_cache s' ''example.com'' = Some v
               \<and> cache_file s' = Some (whois_cache s')"
  using cache_entry_and_file_after_call [OF reachable.start] .

text \<open>
  Claim C4. For a domain already in the dict, the call returns the cached value and leaves
  the whole state as it was: no HTTP request is counted, the file is not written.
\<close>

theorem cached_domain_served_from_cache:
  "whois_cache s domain = Some v \<Longrightarrow> domain_age_days strptime domain resp now s = Inr (v, s)"
  by (simp add: domain_age_days_def)

theorem cached_domain_served_from_cache_witness:
  "domain_age_days no_strptime ''known-good.test'' RequestFailed 0 seeded = Inr (400, seeded)"
proof -
  have "whois_cache seeded ''known-good.test'' = Some 400"
    by (simp add: seeded_def boot_def load_cache_def)
  then show ?thesis by (rule cached_domain_served_from_cache)
qed

text \<open>
  Claim C5, amended. Two calls in succession for a domain that was not in the dict return
  the same value; together they issue exactly one HTTP request when the domain is not
  empty, and none when it is the empty string.
\<close>

theorem two_calls_one_request:
  assumes "whois_cache s domain = None"
  shows "\<exists>v s2. age_days_twice strptime domain resp1 now1 resp2 now2 s = Inr (v, v, s2)
               \<and> http_calls s2 = http_calls s + (if domain = [] then 0 else 1)"
proof (cases "domain = []")
  case True
  with assms show ?thesis
    by (simp add: age_days_twice_def dad_blank dad_hit)
next
  case False
  with assms show ?thesis
    by (simp add: age_days_twice_def dad_miss dad_hit)
qed

theorem two_calls_one_request_witness:
  "\<exists>v s2. age_days_twice sample_strptime ''example.com'' past_reply 1706745600000000 RequestFailed 1706745600000001 (boot None)
             = Inr (v, v, s2)
          \<and> http_calls s2 = 1"
proof -
  have "whois_cache (boot None) ''example.com'' = None"
    by (simp add: boot_def load_cache_def)
  from two_calls_one_request [OF this, of sample_strptime past_reply 1706745600000000 RequestFailed 1706745600000001]
  show ?thesis by (simp add: boot_def)
qed

text \<open>
  Claim C5 as stated counts exactly one request for every domain not yet cached. For the
  empty domain the two calls issue none.
\<close>

theorem two_calls_empty_domain_counterexample:
  "whois_cache (boot None) [] = None \<and>
   age_days_twice no_strptime [] RequestFailed 0 RequestFailed 0 (boot None) =
     Inr (- 1, - 1, \<lparr>whois_cache = [[] \<mapsto> - 1], cache_file = Some [[] \<mapsto> - 1],
                     http_calls = 0, file_writes = 1\<rparr>)"
  by (simp add: age_days_twice_def domain_age_days_def boot_def load_cache_def save_cache_def)

text \<open>
  Claim C6, amended. For the empty domain string the call issues no HTTP request and
  returns a value that the dict holds for the empty key afterwards. The value is -1.0 when
  the empty key was not in the dict before the call, and the cached value otherwise; in
  every state the program reaches from a first run without a cache file it is -1.0.
\<close>

theorem empty_domain_no_request:
  "\<exists>v s'. domain_age_days strptime [] resp now s = Inr (v, s')
          \<and> whois_cache s' [] = Some v
          \<and> http_calls s' = http_calls s
          \<and> v = (case whois_cache s [] of None \<Rightarrow> - 1 | Some u \<Rightarrow> u)
          \<and> (reachable strptime None s \<longrightarrow> v = - 1)"
proof (cases "whois_cache s []")
  case None
  then show ?thesis by (simp add: dad_blank)
next
  case (Some u)
  have "u = - 1" if "reachable strptime None s"
    using reachable_blank_ok [OF that] Some by (simp add: blank_ok_def)
  with Some show ?thesis by (simp add: dad_hit)
qed

theorem empty_domain_no_request_witness:
  "\<exists>s'. domain_age_days no_strptime [] RequestFailed 0 (boot None) = Inr (- 1, s')
        \<and> whois_cache s' [] = Some (- 1)
        \<and> http_calls s' = http_calls (boot None)"
proof -
  have r: "reachable no_strptime None (boot None)" by (rule reachable.start)
  from empty_domain_no_request [of no_strptime RequestFailed 0 "boot None"] r
  show ?thesis by auto
qed

text \<open>
  Claim C6 as stated says that the call for the empty domain returns -1.0. Where the cache
  file found at start-up maps the empty key to 7.0, the cache hit comes first and the call
  returns 7.0.
\<close>

theorem empty_domain_cached_counterexample:
  "domain_age_days no_strptime [] RequestFailed 0 odd_cache = Inr (7, odd_cache)
   \<and> reachable no_strptime (Some [[] \<mapsto> 7]) odd_cache"
proof -
  have "whois_cache odd_cache [] = Some 7"
    by (simp add: odd_cache_def boot_def load_cache_def)
  then have "domain_age_days no_strptime [] RequestFailed 0 odd_cache = Inr (7, odd_cache)"
    by (rule dad_hit)
  moreover have "reachable no_strptime (Some [[] \<mapsto> 7]) odd_cache"
    unfolding odd_cache_def by (rule reachable.start)
  ultimately show ?thesis by simp
qed

text \<open>
  Claim C7, amended. For a successful lookup (the creation date is present and parses to
  the instant \<open>created\<close>) the value returned and cached is the whole number of days
  from \<open>created\<close> to now. It equals -1.0 exactly when \<open>created\<close> lies after now by at
  most one day; when \<open>created\<close> is not after now, it is not negative.
\<close>

theorem successful_lookup_value:
  assumes "whois_cache s domain = None" and "domain \<noteq> []"
    and "resp = JsonBody (PDict kvs)"
    and "map_of kvs ''WhoisRecord'' = Some (PDict rkvs)"
    and "map_of rkvs ''createdDate'' = Some (PStr str)" and "str \<noteq> []"
    and "strptime str = Some created"
  shows "\<exists>s'. domain_age_days strptime domain resp now s = Inr (real_of_int (td_days (now - created)), s')
              \<and> whois_cache s' domain = Some (real_of_int (td_days (now - created)))
              \<and> (real_of_int (td_days (now - created)) = - 1) = (now < created \<and> created \<le> now + usec_per_day)
              \<and> (created \<le> now \<longrightarrow> 0 \<le> real_of_int (td_days (now - created)))"
proof -
  have age: "whois_age strptime resp now = Inr (real_of_int (td_days (now - created)))"
    using assms(3-7) by (simp add: whois_age_def dict_get_def)
  have "(0::int) < usec_per_day" by (simp add: usec_per_day_def)
  then have "(td_days (now - created) = - 1) = (now < created \<and> created \<le> now + usec_per_day)"
    unfolding td_days_def by (auto simp: div_minus_one_iff)
  moreover have "created \<le> now \<longrightarrow> 0 \<le> td_days (now - created)"
    unfolding td_days_def usec_per_day_def by (simp add: pos_imp_zdiv_nonneg_iff)
  moreover have "(real_of_int (td_days (now - created)) = - 1) = (td_days (now - created) = - 1)"
    by linarith
  ultimately show ?thesis
    using assms(1,2) age by (simp add: dad_miss stored_def)
qed

theorem successful_lookup_value_witness:
  "\<exists>s'. domain_age_days sample_strptime ''example.com'' past_reply 1706745600000000 (boot None) = Inr (31, s')
        \<and> whois_cache s' ''example.com'' = Some 31"
proof -
  have 1: "whois_cache (boot None) ''example.com'' = None"
    by (simp add: boot_def load_cache_def)
  have 2: "''example.com'' \<noteq> []" by simp
  have 3: "past_reply = JsonBody (PDict [(''WhoisRecord'', PDict [(''createdDate'', PStr ''2024-01-01T00:00:00Z'')])])"
    by (simp add: past_reply_def)
  have 4: "map_of [(''WhoisRecord'', PDict [(''createdDate'', PStr ''2024-01-01T00:00:00Z'')])] ''WhoisRecord''
             = Some (PDict [(''createdDate'', PStr ''2024-01-01T00:00:00Z'')])" by simp
  have 5: "map_of [(''createdDate'', PStr ''2024-01-01T00:00:00Z'')] ''createdDate'' = Some (PStr ''2024-01-01T00:00:00Z'')"
    by simp
  have 6: "''2024-01-01T00:00:00Z'' \<noteq> []" by simp
  have 7: "sample_strptime ''2024-01-01T00:00:00Z'' = Some 1704067200000000"
    by (simp add: sample_strptime_def)
  have d: "td_days (1706745600000000 - 1704067200000000) = 31"
    by (simp add: td_days_def usec_per_day_def)
  from successful_lookup_value [where strptime = sample_strptime and now = 1706745600000000, OF 1 2 3 4 5 6 7]
  show ?thesis unfolding d by auto
qed

text \<open>
  Claim C7 as stated says that no successful lookup yields -1.0. A creation date one
  second after the clock reading does: the lookup succeeds and the value stored is -1.0.
\<close>

theorem sentinel_collision_counterexample:
  "whois_age sample_strptime future_reply 1704067200000000 = Inr (- 1)
   \<and> domain_age_days sample_strptime ''new.test'' future_reply 1704067200000000 (boot None) =
       Inr (- 1, \<lparr>whois_cache = [''new.test'' \<mapsto> - 1], cache_file = Some [''new.test'' \<mapsto> - 1],
                  http_calls = 1, file_writes = 1\<rparr>)"
  by (simp add: whois_age_def future_reply_def dict_get_def sample_strptime_def td_days_def usec_per_day_def
      domain_age_days_def boot_def load_cache_def save_cache_def)

section \<open>Facts about lower case and the host name\<close>

















lemma lower_fixed: "list_all (\<lambda>c. \<not> isupper c) s \<Longrightarrow> lower s = s"
  by (induction s) (simp_all add: lower_def lower_char_def)







lemmas url_eval = get_domain_def urlparse_def urlsplit_def split_scheme_def splitnetloc_def netloc_delim_def
  c0_control_or_space_def unsafe_url_byte_def code_def isalpha_ascii_def isupper_def scheme_char_def
  isdigit_def lower_def lower_char_def Let_def checknetloc_def isascii_def hostname_def hostinfo_host_def
  partition_py_def rpartition_py_def

section \<open>The domain extractor: claims C8 and C10\<close>

text \<open>
  Claim C8 says that no exception leaves \<^verbatim>\<open>get_domain\<close> and that an unparsable URL
  gives the empty string, as the docstring of the function does. For a URL whose netloc
  has an opening bracket without a closing one, \<^verbatim>\<open>urlsplit\<close> raises ValueError
  (Invalid IPv6 URL), and \<^verbatim>\<open>get_domain\<close> has no handler: the exception leaves it,
  whatever the two library checks answer.
\<close>

theorem get_domain_unbalanced_bracket_raises:
  "get_domain lib ''http://['' = Inl ValueError"
  by (simp add: url_eval)




section \<open>The orchestrator: claim C9\<close>







end
